theory Spec2Isabelle
  imports Main "HOL-Library.Sublist"
begin

section \<open>Python string operations used by main.py\<close>

text \<open>
  Python strings are modelled as \<open>string\<close>; a \<open>char\<close> stands for a code point below 256.
  \<open>isspace\<close> lists the code points in that range that \<open>str.strip()\<close> removes.
\<close>

definition isspace :: "char \<Rightarrow> bool" where
  "isspace c = (c \<in> set [CHR 0x09, CHR 0x0A, CHR 0x0B, CHR 0x0C, CHR 0x0D,
                          CHR 0x1C, CHR 0x1D, CHR 0x1E, CHR 0x1F, CHR 0x20,
                          CHR 0x85, CHR 0xA0])"

text \<open>\<open>s.strip()\<close>\<close>

definition strip :: "string \<Rightarrow> string" where
  "strip s = rev (dropWhile isspace (rev (dropWhile isspace s)))"

text \<open>\<open>s.startswith(p)\<close>\<close>

definition startswith :: "string \<Rightarrow> string \<Rightarrow> bool" where
  "startswith s p = prefix p s"

text \<open>\<open>sub in s\<close> for two strings\<close>

fun contains :: "string \<Rightarrow> string \<Rightarrow> bool" where
  "contains sub [] = (sub = [])"
| "contains sub (c # cs) = (prefix sub (c # cs) \<or> contains sub cs)"

text \<open>\<open>sep.join(xs)\<close>\<close>

fun join :: "string \<Rightarrow> string list \<Rightarrow> string" where
  "join sep [] = []"
| "join sep [x] = x"
| "join sep (x # y # ys) = x @ sep @ join sep (y # ys)"


section \<open>The parsed document (BeautifulSoup with html.parser)\<close>

text \<open>
  A \<open>Tag\<close> carries its name, its \<open>class\<close> attribute as the parser stores it (absent, or the
  list of whitespace-separated tokens), its other attributes, and its children.
  The \<open>BeautifulSoup\<close> object itself is the root \<open>Tag\<close>.

  A string of the document is a \<open>NavigableString\<close> or an object of one of its subclasses:
  a CDATA section, a comment, a declaration, a doctype, a processing instruction, or the
  class the parser gives to a string inside \<open>script\<close>, \<open>style\<close>, \<open>template\<close>, \<open>rt\<close> and
  \<open>rp\<close>. The constructor \<open>NavigableString\<close> is a string of exactly that class;
  \<open>TypedString\<close> is a string of the named subclass.
\<close>

datatype string_class =
    CData
  | Comment
  | Declaration
  | Doctype
  | ProcessingInstruction
  | Script
  | Stylesheet
  | TemplateString
  | RubyTextString
  | RubyParenthesisString

datatype node =
    Tag string "string list option" "(string \<times> string) list" "node list"
  | NavigableString string
  | TypedString string_class string

text \<open>\<open>tag.descendants\<close>: every node below the tag, in document order.\<close>

fun descendants :: "node \<Rightarrow> node list" where
  "descendants (Tag n cls ats ks) = concat (map (\<lambda>k. k # descendants k) ks)"
| "descendants (NavigableString s) = []"
| "descendants (TypedString k s) = []"

text \<open>
  The strings below a node in document order, each with its class (\<open>None\<close> for a plain
  \<open>NavigableString\<close>).
\<close>

fun all_strings :: "node \<Rightarrow> (string_class option \<times> string) list" where
  "all_strings (Tag n cls ats ks) = concat (map all_strings ks)"
| "all_strings (NavigableString s) = [(None, s)]"
| "all_strings (TypedString k s) = [(Some k, s)]"

text \<open>
  \<open>Tag.interesting_string_types\<close>: the string classes that count as the text of a tag with
  the given name. For the five container tags it is the container's own class, for every
  other tag \<open>NavigableString\<close> and \<open>CData\<close>.
\<close>

definition interesting_string_types :: "string \<Rightarrow> string_class option list" where
  "interesting_string_types n =
     (if n = ''rt'' then [Some RubyTextString]
      else if n = ''rp'' then [Some RubyParenthesisString]
      else if n = ''style'' then [Some Stylesheet]
      else if n = ''script'' then [Some Script]
      else if n = ''template'' then [Some TemplateString]
      else [None, Some CData])"

text \<open>
  \<open>tag.text\<close>: the strings below the tag whose class is one of the tag's interesting
  string types, concatenated. Comments, and from an ordinary tag the strings inside
  \<open>script\<close>, \<open>style\<close> and the other containers, are left out. The text of a string is
  the string.
\<close>

fun get_text :: "node \<Rightarrow> string" where
  "get_text (Tag n cls ats ks) =
     concat (map snd (filter (\<lambda>p. fst p \<in> set (interesting_string_types n))
                             (concat (map all_strings ks))))"
| "get_text (NavigableString s) = s"
| "get_text (TypedString k s) = s"

text \<open>\<open>tag.get('class', [])\<close>\<close>

fun get_class :: "node \<Rightarrow> string list" where
  "get_class (Tag n cls ats ks) = (case cls of None \<Rightarrow> [] | Some cs \<Rightarrow> cs)"
| "get_class (NavigableString s) = []"
| "get_class (TypedString k s) = []"

text \<open>\<open>tag.get(key, '')\<close> for an attribute other than \<open>class\<close>\<close>

fun get_attr :: "node \<Rightarrow> string \<Rightarrow> string" where
  "get_attr (Tag n cls ats ks) key = (case map_of ats key of None \<Rightarrow> [] | Some v \<Rightarrow> v)"
| "get_attr (NavigableString s) key = []"
| "get_attr (TypedString k s) key = []"


section \<open>The CSS selectors that main.py passes to select and select_one\<close>

text \<open>
  A selector is a comma-separated group of compound selectors; a compound selector is a
  sequence of simple selectors that must all hold of the same element. None of the
  selectors in main.py uses a combinator.
\<close>

datatype simple_selector =
    Type string
  | Class string
  | AttrContains string string
  | HasAttr string

type_synonym compound_selector = "simple_selector list"
type_synonym selector = "compound_selector list"

text \<open>
  The value an attribute selector tests: the \<open>class\<close> tokens are joined by a single space,
  any other attribute is its string. The substring test \<open>[key*="v"]\<close> is modelled for a
  non-empty \<open>v\<close>, which is all that main.py uses.
\<close>

fun attr_value :: "node \<Rightarrow> string \<Rightarrow> string option" where
  "attr_value (Tag n cls ats ks) key =
     (if key = ''class'' then map_option (join '' '') cls else map_of ats key)"
| "attr_value (NavigableString s) key = None"
| "attr_value (TypedString k s) key = None"

fun match_simple :: "node \<Rightarrow> simple_selector \<Rightarrow> bool" where
  "match_simple (Tag n cls ats ks) (Type t) = (n = t)"
| "match_simple (Tag n cls ats ks) (Class c) =
     (case cls of None \<Rightarrow> False | Some cs \<Rightarrow> c \<in> set cs)"
| "match_simple (Tag n cls ats ks) (AttrContains key v) =
     (case attr_value (Tag n cls ats ks) key of None \<Rightarrow> False | Some s \<Rightarrow> contains v s)"
| "match_simple (Tag n cls ats ks) (HasAttr key) =
     (case attr_value (Tag n cls ats ks) key of None \<Rightarrow> False | Some s \<Rightarrow> True)"
| "match_simple (NavigableString s) sel = False"
| "match_simple (TypedString k s) sel = False"

definition match :: "node \<Rightarrow> selector \<Rightarrow> bool" where
  "match el sel = list_ex (list_all (match_simple el)) sel"

text \<open>\<open>tag.select(sel)\<close>: the descendants that match, in document order.\<close>

definition select :: "node \<Rightarrow> selector \<Rightarrow> node list" where
  "select el sel = filter (\<lambda>d. match d sel) (descendants el)"

text \<open>\<open>tag.select_one(sel)\<close>: the first descendant in document order that matches.\<close>

definition select_one :: "node \<Rightarrow> selector \<Rightarrow> node option" where
  "select_one el sel = find (\<lambda>d. match d sel) (descendants el)"

text \<open>The selector strings of main.py, parsed.\<close>

definition sel_tr_job :: selector where
  "sel_tr_job = [[Type ''tr'', Class ''job'']]"

definition sel_h3 :: selector where
  "sel_h3 = [[Type ''h3'']]"

definition sel_h2 :: selector where
  "sel_h2 = [[Type ''h2'']]"

definition sel_tag :: selector where
  "sel_tag = [[Class ''tag'']]"

definition sel_title :: selector where
  "sel_title = [[Type ''h2''], [Type ''h3''], [Class ''title''], [AttrContains ''class'' ''title'']]"

definition sel_company :: selector where
  "sel_company = [[Class ''company''], [AttrContains ''class'' ''company'']]"

definition sel_a_href :: selector where
  "sel_a_href = [[Type ''a'', HasAttr ''href'']]"

definition job_selectors :: "selector list" where
  "job_selectors =
     [ [[Type ''div'', Class ''job'']],
       [[Type ''div'', Class ''job-listing'']],
       [[Type ''article'', Class ''job'']],
       [[Type ''li'', Class ''job'']],
       [[Type ''div'', AttrContains ''class'' ''job'']],
       [[Type ''div'', AttrContains ''class'' ''listing'']] ]"


section \<open>Job records and the HTTP boundary\<close>

record job =
  company :: string
  position :: string
  skills :: string
  link :: string
  source :: string

text \<open>
  \<open>requests.get\<close> either raises or returns a response; \<open>raise_for_status\<close> raises
  \<open>HTTPError\<close> for a 4xx or 5xx status. The response body is held already parsed.
\<close>

datatype exn = RequestException string | HTTPError nat

record response =
  status_code :: nat
  soup :: node

type_synonym http = "string \<Rightarrow> exn + response"

definition raise_for_status :: "response \<Rightarrow> exn + unit" where
  "raise_for_status r =
     (if 400 \<le> status_code r \<and> status_code r < 600 then Inl (HTTPError (status_code r))
      else Inr ())"


section \<open>scrape_remoteok\<close>

text \<open>
  The body of the \<open>for job in job_rows[:30]\<close> loop for one row: \<open>None\<close> when the iteration
  appends nothing, \<open>Some r\<close> when it appends \<open>r\<close>. A \<open>Tag\<close> is always truthy, so
  \<open>company_elem and position_elem\<close> tests that both were found. No operation of the
  body raises \<open>AttributeError\<close> or \<open>KeyError\<close> on a \<open>Tag\<close>, so the \<open>except\<close> branch has
  no case of its own here.
\<close>

definition remoteok_row :: "node \<Rightarrow> job option" where
  "remoteok_row job_el =
     (if ''featured'' \<in> set (get_class job_el) then None
      else
        let company_elem = select_one job_el sel_h3;
            position_elem = select_one job_el sel_h2;
            tags = select job_el sel_tag
        in (case company_elem of
              None \<Rightarrow> None
            | Some ce \<Rightarrow>
               (case position_elem of
                  None \<Rightarrow> None
                | Some pe \<Rightarrow>
                   let skill_list = map (\<lambda>t. strip (get_text t)) (take 5 tags);
                       data_url = get_attr job_el ''data-url'';
                       url = (if data_url \<noteq> [] \<and> \<not> startswith data_url ''http''
                              then ''https://remoteok.com'' @ data_url else data_url)
                   in Some \<lparr> company = strip (get_text ce),
                             position = strip (get_text pe),
                             skills = join '', '' skill_list,
                             link = url,
                             source = ''RemoteOK'' \<rparr>)))"

fun remoteok_loop :: "node list \<Rightarrow> job list \<Rightarrow> job list" where
  "remoteok_loop [] jobs = jobs"
| "remoteok_loop (job_el # rest) jobs =
     (case remoteok_row job_el of
        None \<Rightarrow> remoteok_loop rest jobs
      | Some r \<Rightarrow> remoteok_loop rest (jobs @ [r]))"

text \<open>Lines 34 to 69: from the parsed document to the list of jobs.\<close>

definition remoteok_jobs :: "node \<Rightarrow> job list" where
  "remoteok_jobs doc = remoteok_loop (take 30 (select doc sel_tr_job)) []"

definition scrape_remoteok :: "http \<Rightarrow> string \<Rightarrow> exn + job list" where
  "scrape_remoteok get url =
     (case get url of
        Inl e \<Rightarrow> Inl e
      | Inr resp \<Rightarrow>
         (case raise_for_status resp of
            Inl e \<Rightarrow> Inl e
          | Inr u \<Rightarrow> Inr (remoteok_jobs (soup resp))))"


section \<open>scrape_generic_jobs\<close>

text \<open>
  The body of the inner loop for one matched element: \<open>None\<close> when nothing is appended.
  \<open>if title\<close> tests that a title element was found; as above, nothing in the body raises.
\<close>

definition generic_elem :: "string \<Rightarrow> node \<Rightarrow> job option" where
  "generic_elem url job_elem =
     (let title_el = select_one job_elem sel_title;
          company_el = select_one job_elem sel_company;
          link_el = select_one job_elem sel_a_href
      in (case title_el of
            None \<Rightarrow> None
          | Some t \<Rightarrow>
             Some \<lparr> company = (case company_el of Some c \<Rightarrow> strip (get_text c) | None \<Rightarrow> ''N/A''),
                     position = strip (get_text t),
                     skills = ''N/A'',
                     link = (case link_el of Some l \<Rightarrow> get_attr l ''href'' | None \<Rightarrow> []),
                     source = url \<rparr>))"

fun element_loop :: "string \<Rightarrow> node list \<Rightarrow> job list \<Rightarrow> job list" where
  "element_loop url [] jobs = jobs"
| "element_loop url (job_elem # rest) jobs =
     (case generic_elem url job_elem of
        None \<Rightarrow> element_loop url rest jobs
      | Some r \<Rightarrow> element_loop url rest (jobs @ [r]))"

text \<open>The outer loop over \<open>job_selectors\<close>, with its \<open>break\<close> once \<open>jobs\<close> is non-empty.\<close>

fun selector_loop :: "string \<Rightarrow> node \<Rightarrow> selector list \<Rightarrow> job list \<Rightarrow> job list" where
  "selector_loop url doc [] jobs = jobs"
| "selector_loop url doc (sel # rest) jobs =
     (let job_elements = take 20 (select doc sel) in
      if job_elements \<noteq> [] then
        (let jobs' = element_loop url job_elements jobs in
         if jobs' \<noteq> [] then jobs' else selector_loop url doc rest jobs')
      else selector_loop url doc rest jobs)"

text \<open>Lines 83 to 116: from the parsed document to the list of jobs.\<close>

definition generic_jobs :: "string \<Rightarrow> node \<Rightarrow> job list" where
  "generic_jobs url doc = selector_loop url doc job_selectors []"

definition scrape_generic_jobs :: "http \<Rightarrow> string \<Rightarrow> exn + job list" where
  "scrape_generic_jobs get url =
     (case get url of
        Inl e \<Rightarrow> Inl e
      | Inr resp \<Rightarrow>
         (case raise_for_status resp of
            Inl e \<Rightarrow> Inl e
          | Inr u \<Rightarrow> Inr (generic_jobs url (soup resp))))"


section \<open>scrape_data and main\<close>

definition sentinel :: "string \<Rightarrow> job" where
  "sentinel url = \<lparr> company = ''N/A'', position = ''No jobs found'', skills = ''N/A'',
                    link = url, source = url \<rparr>"

text \<open>The extractor that \<open>scrape_data\<close> selects for a URL.\<close>

definition selected_extractor :: "http \<Rightarrow> string \<Rightarrow> exn + job list" where
  "selected_extractor get url =
     (if contains ''remoteok.com'' url then scrape_remoteok get url
      else scrape_generic_jobs get url)"

text \<open>
  \<open>data\<close> starts as the empty list and keeps that value when the extractor raises.
  The returned DataFrame has one row per element of \<open>data\<close>, in order.
\<close>

definition scrape_data :: "http \<Rightarrow> string \<Rightarrow> job list" where
  "scrape_data get url =
     (let data = (case selected_extractor get url of Inl e \<Rightarrow> [] | Inr d \<Rightarrow> d)
      in if data = [] then data @ [sentinel url] else data)"

text \<open>Lines 165 to 168 of \<open>main\<close>: the URL handed to \<open>scrape_data\<close>.\<close>

definition main_url :: "string \<Rightarrow> string" where
  "main_url arg =
     (if \<not> (startswith arg ''http://'' \<or> startswith arg ''https://'')
      then ''https://'' @ arg else arg)"

definition main_scrape :: "http \<Rightarrow> string \<Rightarrow> job list" where
  "main_scrape get arg = scrape_data get (main_url arg)"


section \<open>Auxiliary definitions for the properties\<close>

text \<open>
  What one iteration of the outer loop of \<open>scrape_generic_jobs\<close> adds to an empty \<open>jobs\<close>:
  the records of the first 20 elements that the pattern selects.
\<close>

definition pattern_records :: "string \<Rightarrow> node \<Rightarrow> selector \<Rightarrow> job list" where
  "pattern_records url doc sel = element_loop url (take 20 (select doc sel)) []"

text \<open>Example documents.\<close>

definition titled_div :: "string \<Rightarrow> node" where
  "titled_div t = Tag ''div'' (Some [''job'']) [] [Tag ''h2'' None [] [NavigableString t]]"

definition cap_doc :: node where
  "cap_doc = Tag ''[document]'' None []
               (replicate 20 (titled_div ''Engineer'') @ [titled_div ''Late''])"

definition cap_doc' :: node where
  "cap_doc' = Tag ''[document]'' None [] (replicate 20 (titled_div ''Engineer''))"

definition job_row :: "string list \<Rightarrow> string \<Rightarrow> string \<Rightarrow> string \<Rightarrow> node" where
  "job_row cls co pos url =
     Tag ''tr'' (Some cls) [(''data-url'', url)]
       [Tag ''td'' None []
          [Tag ''h2'' None [] [NavigableString pos], Tag ''h3'' None [] [NavigableString co]]]"

definition featured_row :: node where
  "featured_row = job_row [''job'', ''featured''] ''Ad Corp'' ''Sponsored post'' ''/ad/1''"

definition featured_top_row :: node where
  "featured_top_row = job_row [''job'', ''featured-top''] ''Acme'' ''Engineer'' ''/jobs/1''"

definition classless_row :: node where
  "classless_row = Tag ''tr'' None []
     [Tag ''td'' None []
        [Tag ''h2'' None [] [NavigableString ''Engineer''],
         Tag ''h3'' None [] [NavigableString ''Acme'']]]"

definition featured_doc :: node where
  "featured_doc = Tag ''[document]'' None []
     [Tag ''table'' None []
        (featured_row # replicate 30 (job_row [''job''] ''Acme'' ''Engineer'' ''/jobs/1''))]"

definition blank_title_doc :: node where
  "blank_title_doc = Tag ''[document]'' None []
     [Tag ''div'' (Some [''job'']) [] [Tag ''h2'' None [] []]]"

definition blank_position_doc :: node where
  "blank_position_doc = Tag ''[document]'' None []
     [Tag ''table'' None [] [job_row [''job''] ''Acme'' '' '' ''/jobs/1'']]"

definition untitled_elem :: node where
  "untitled_elem = Tag ''div'' (Some [''job'']) []
     [Tag ''p'' None [] [NavigableString ''Apply by email'']]"



definition fallback_doc :: node where
  "fallback_doc = Tag ''[document]'' None []
     [Tag ''div'' (Some [''job-card'']) []
        [Tag ''h3'' None [] [NavigableString ''Backend Engineer''],
         Tag ''span'' (Some [''company'']) [] [NavigableString '' Acme ''],
         Tag ''a'' None [(''href'', ''/jobs/1'')] [NavigableString ''Apply'']],
      Tag ''div'' (Some [''job-card'']) []
        [Tag ''h3'' None [] [NavigableString ''Data Engineer'']]]"

definition commented_heading :: node where
  "commented_heading = Tag ''h2'' None []
     [TypedString Comment '' draft '',
      NavigableString ''Backend '',
      Tag ''script'' None [] [TypedString Script ''track()''],
      Tag ''b'' None [] [NavigableString ''Engineer'']]"

definition untitled_then_titled_doc :: node where
  "untitled_then_titled_doc = Tag ''[document]'' None []
     [untitled_elem,
      Tag ''ul'' None []
        [Tag ''li'' (Some [''job'']) [] [Tag ''h3'' None [] [NavigableString ''Data Engineer'']]],
      Tag ''div'' (Some [''listing'']) [] [Tag ''h2'' None [] [NavigableString ''Archived role'']]]"


section \<open>Readings of the specification that the code is compared with\<close>

text \<open>
  The site-specific loop as it would be if a featured row took none of the 30 row slots:
  featured rows are dropped before the cap is applied.
\<close>

definition spec_remoteok_jobs :: "node \<Rightarrow> job list" where
  "spec_remoteok_jobs doc =
     remoteok_loop
       (take 30 (filter (\<lambda>row. ''featured'' \<notin> set (get_class row)) (select doc sel_tr_job))) []"

text \<open>
  A string starts with a URL scheme (RFC 3986, section 3.1) when a colon follows a letter
  and any number of letters, digits, \<open>+\<close>, \<open>-\<close> and \<open>.\<close>.
\<close>

definition scheme_letters :: string where
  "scheme_letters = ''abcdefghijklmnopqrstuvwxyzABCDEFGHIJKLMNOPQRSTUVWXYZ''"

definition scheme_others :: string where
  "scheme_others = ''0123456789+-.''"

definition has_scheme :: "string \<Rightarrow> bool" where
  "has_scheme s =
     (case takeWhile (\<lambda>c. c \<noteq> CHR '':'') s of
        [] \<Rightarrow> False
      | c # cs \<Rightarrow> c \<in> set scheme_letters
                  \<and> list_all (\<lambda>d. d \<in> set (scheme_letters @ scheme_others)) cs
                  \<and> length (c # cs) < length s)"


section \<open>Properties of the loops\<close>

lemma remoteok_loop_append:
  "remoteok_loop rows jobs = jobs @ List.map_filter remoteok_row rows"
  by (induction rows arbitrary: jobs) (simp_all add: List.map_filter_simps split: option.splits)

lemma element_loop_append:
  "element_loop url els jobs = jobs @ List.map_filter (generic_elem url) els"
  by (induction els arbitrary: jobs) (simp_all add: List.map_filter_simps split: option.splits)

lemma length_map_filter_le: "length (List.map_filter f xs) \<le> length xs"
  by (induction xs) (simp_all add: List.map_filter_simps split: option.splits)

lemma pattern_records_Nil: "take 20 (select doc sel) = [] \<Longrightarrow> pattern_records url doc sel = []"
  by (simp add: pattern_records_def)

text \<open>
  The outer loop, started with no jobs, returns the records of the first pattern in the
  list whose records are not empty, and nothing when there is no such pattern.
\<close>

lemma selector_loop_find:
  "selector_loop url doc sels [] =
     (case find (\<lambda>sel. pattern_records url doc sel \<noteq> []) sels of
        None \<Rightarrow> []
      | Some sel \<Rightarrow> pattern_records url doc sel)"
proof (induction sels)
  case Nil
  show ?case by simp
next
  case (Cons sel rest)
  show ?case
  proof (cases "take 20 (select doc sel) = []")
    case True
    then show ?thesis using Cons by (simp add: pattern_records_Nil)
  next
    case False
    then show ?thesis using Cons by (simp add: pattern_records_def Let_def)
  qed
qed

lemma length_pattern_records: "length (pattern_records url doc sel) \<le> 20"
proof -
  have "length (List.map_filter (generic_elem url) (take 20 (select doc sel)))
          \<le> length (take 20 (select doc sel))"
    by (rule length_map_filter_le)
  then show ?thesis by (simp add: pattern_records_def element_loop_append)
qed

lemma length_generic_jobs: "length (generic_jobs url doc) \<le> 20"
  unfolding generic_jobs_def selector_loop_find
  by (simp add: length_pattern_records split: option.split)

lemma length_remoteok_jobs: "length (remoteok_jobs doc) \<le> 30"
proof -
  have "length (List.map_filter remoteok_row (take 30 (select doc sel_tr_job)))
          \<le> length (take 30 (select doc sel_tr_job))"
    by (rule length_map_filter_le)
  then show ?thesis by (simp add: remoteok_jobs_def remoteok_loop_append)
qed

lemma generic_jobs_cong:
  assumes "\<forall>sel\<in>set job_selectors. take 20 (select doc sel) = take 20 (select doc' sel)"
  shows "generic_jobs url doc = generic_jobs url doc'"
proof -
  have eq: "\<And>sel. sel \<in> set job_selectors \<Longrightarrow>
              pattern_records url doc sel = pattern_records url doc' sel"
    using assms by (simp add: pattern_records_def)
  have f: "find (\<lambda>sel. pattern_records url doc sel \<noteq> []) job_selectors
         = find (\<lambda>sel. pattern_records url doc' sel \<noteq> []) job_selectors"
    by (rule find_cong) (simp_all add: eq)
  show ?thesis
  proof (cases "find (\<lambda>sel. pattern_records url doc' sel \<noteq> []) job_selectors")
    case None
    then show ?thesis using f by (simp add: generic_jobs_def selector_loop_find)
  next
    case (Some sel)
    then have "sel \<in> set job_selectors" by (auto simp: find_Some_iff)
    then show ?thesis using f Some eq by (simp add: generic_jobs_def selector_loop_find)
  qed
qed

lemma set_map_filter: "set (List.map_filter f xs) = {y. \<exists>x\<in>set xs. f x = Some y}"
  by (induction xs) (auto simp: List.map_filter_simps split: option.splits)

lemma in_remoteok_jobs:
  "r \<in> set (remoteok_jobs doc) \<Longrightarrow>
     \<exists>row\<in>set (take 30 (select doc sel_tr_job)). remoteok_row row = Some r"
  by (simp add: remoteok_jobs_def remoteok_loop_append set_map_filter)

lemma in_pattern_records:
  "r \<in> set (pattern_records url doc sel) \<Longrightarrow>
     \<exists>el\<in>set (take 20 (select doc sel)). generic_elem url el = Some r"
  by (simp add: pattern_records_def element_loop_append set_map_filter)

lemma in_generic_jobs:
  assumes "r \<in> set (generic_jobs url doc)"
  shows "\<exists>sel\<in>set job_selectors. \<exists>el\<in>set (take 20 (select doc sel)). generic_elem url el = Some r"
proof (cases "find (\<lambda>sel. pattern_records url doc sel \<noteq> []) job_selectors")
  case None
  then show ?thesis using assms by (simp add: generic_jobs_def selector_loop_find)
next
  case (Some sel)
  then have mem: "sel \<in> set job_selectors" by (auto simp: find_Some_iff)
  from Some assms have "r \<in> set (pattern_records url doc sel)"
    by (simp add: generic_jobs_def selector_loop_find)
  then show ?thesis using mem in_pattern_records by blast
qed

lemma map_filter_filter:
  "\<forall>x\<in>set xs. \<not> P x \<longrightarrow> f x = None \<Longrightarrow>
     List.map_filter f (filter P xs) = List.map_filter f xs"
  by (induction xs) (auto simp: List.map_filter_simps split: option.splits)

lemma remoteok_row_featured:
  "''featured'' \<in> set (get_class row) \<Longrightarrow> remoteok_row row = None"
  by (simp add: remoteok_row_def)


section \<open>The sentinel row of scrape_data\<close>

text \<open>
  C1. Whenever the extractor selected for the URL raises, or returns no record,
  \<open>scrape_data\<close> returns exactly the sentinel row: company \<open>N/A\<close>, position
  \<open>No jobs found\<close>, skills \<open>N/A\<close>, link and source the requested URL. In every case the
  returned list is not empty.
\<close>

theorem scrape_data_sentinel:
  "((\<exists>e. selected_extractor get url = Inl e) \<or> selected_extractor get url = Inr []
      \<longrightarrow> scrape_data get url =
            [\<lparr> company = ''N/A'', position = ''No jobs found'', skills = ''N/A'',
               link = url, source = url \<rparr>])
   \<and> scrape_data get url \<noteq> []"
  by (cases "selected_extractor get url") (auto simp: scrape_data_def sentinel_def Let_def)

theorem scrape_data_sentinel_witness:
  "selected_extractor (\<lambda>u. Inl (RequestException ''timed out'')) ''https://example.com/jobs''
     = Inl (RequestException ''timed out'')
   \<and> scrape_data (\<lambda>u. Inl (RequestException ''timed out'')) ''https://example.com/jobs''
     = [\<lparr> company = ''N/A'', position = ''No jobs found'', skills = ''N/A'',
          link = ''https://example.com/jobs'', source = ''https://example.com/jobs'' \<rparr>]
   \<and> selected_extractor (\<lambda>u. Inr \<lparr> status_code = 200, soup = Tag ''[document]'' None [] [] \<rparr>)
         ''https://remoteok.com/remote-python-jobs'' = Inr []
   \<and> scrape_data (\<lambda>u. Inr \<lparr> status_code = 200, soup = Tag ''[document]'' None [] [] \<rparr>)
         ''https://remoteok.com/remote-python-jobs''
     = [\<lparr> company = ''N/A'', position = ''No jobs found'', skills = ''N/A'',
          link = ''https://remoteok.com/remote-python-jobs'',
          source = ''https://remoteok.com/remote-python-jobs'' \<rparr>]"
proof -
  have h: "selected_extractor (\<lambda>u. Inl (RequestException ''timed out''))
             ''https://example.com/jobs'' = Inl (RequestException ''timed out'')"
    by (simp add: selected_extractor_def scrape_generic_jobs_def scrape_remoteok_def)
  have k: "selected_extractor
             (\<lambda>u. Inr \<lparr> status_code = 200, soup = Tag ''[document]'' None [] [] \<rparr>)
             ''https://remoteok.com/remote-python-jobs'' = Inr []"
    by code_simp
  from scrape_data_sentinel
         [of "\<lambda>u. Inl (RequestException ''timed out'')" "''https://example.com/jobs''"]
       scrape_data_sentinel
         [of "\<lambda>u. Inr \<lparr> status_code = 200, soup = Tag ''[document]'' None [] [] \<rparr>"
             "''https://remoteok.com/remote-python-jobs''"] h k
  show ?thesis by simp
qed


section \<open>The pattern chain of the generic extractor\<close>

lemma generic_elem_None_iff:
  "generic_elem url el = None \<longleftrightarrow> select_one el sel_title = None"
  by (simp add: generic_elem_def Let_def split: option.splits)

lemma map_filter_Nil_iff: "List.map_filter f xs = [] \<longleftrightarrow> (\<forall>x\<in>set xs. f x = None)"
  by (induction xs) (auto simp: List.map_filter_simps split: option.splits)

text \<open>A pattern yields a record exactly when one of its first 20 elements has a title.\<close>

lemma pattern_records_titled:
  "pattern_records url doc sel \<noteq> [] \<longleftrightarrow>
     list_ex (\<lambda>el. select_one el sel_title \<noteq> None) (take 20 (select doc sel))"
  by (simp add: pattern_records_def element_loop_append map_filter_Nil_iff
                generic_elem_None_iff list_ex_iff)

text \<open>
  C2. The generic extractor tries the patterns of \<open>job_selectors\<close> in their listed order and
  returns the records of the first pattern for which at least one of the first 20 selected
  elements survives the title filter, that is, has a title element; the result holds the
  records of the elements of that one pattern, in document order, and of no later pattern.
  An element gives a record exactly when it has a title element. A pattern that selects
  elements all of which lack a title is passed over like a pattern that selects nothing,
  and the search goes on with the patterns after it. When no pattern has a titled element
  the result is empty.
\<close>

theorem generic_jobs_first_pattern:
  "generic_jobs url doc =
     (case find (\<lambda>sel. list_ex (\<lambda>el. select_one el sel_title \<noteq> None)
                               (take 20 (select doc sel))) job_selectors of
        None \<Rightarrow> []
      | Some sel \<Rightarrow> List.map_filter (generic_elem url) (take 20 (select doc sel)))
   \<and> (generic_elem url el = None \<longleftrightarrow> select_one el sel_title = None)
   \<and> (select_one el sel_title = Some t \<longrightarrow>
        map_option position (generic_elem url el) = Some (strip (get_text t)))"
proof (intro conjI impI)
  have eq: "(\<lambda>sel. pattern_records url doc sel \<noteq> [])
        = (\<lambda>sel. list_ex (\<lambda>el. select_one el sel_title \<noteq> None) (take 20 (select doc sel)))"
    by (rule ext) (rule pattern_records_titled)
  have pr: "pattern_records url doc
        = (\<lambda>sel. List.map_filter (generic_elem url) (take 20 (select doc sel)))"
    by (rule ext) (simp add: pattern_records_def element_loop_append)
  have "generic_jobs url doc =
     (case find (\<lambda>sel. pattern_records url doc sel \<noteq> []) job_selectors of
        None \<Rightarrow> []
      | Some sel \<Rightarrow> pattern_records url doc sel)"
    unfolding generic_jobs_def by (rule selector_loop_find)
  also have "\<dots> =
     (case find (\<lambda>sel. list_ex (\<lambda>el. select_one el sel_title \<noteq> None)
                               (take 20 (select doc sel))) job_selectors of
        None \<Rightarrow> []
      | Some sel \<Rightarrow> pattern_records url doc sel)"
    by (subst eq) (rule refl)
  also have "\<dots> =
     (case find (\<lambda>sel. list_ex (\<lambda>el. select_one el sel_title \<noteq> None)
                               (take 20 (select doc sel))) job_selectors of
        None \<Rightarrow> []
      | Some sel \<Rightarrow> List.map_filter (generic_elem url) (take 20 (select doc sel)))"
    by (subst pr) (rule refl)
  finally show "generic_jobs url doc =
     (case find (\<lambda>sel. list_ex (\<lambda>el. select_one el sel_title \<noteq> None)
                               (take 20 (select doc sel))) job_selectors of
        None \<Rightarrow> []
      | Some sel \<Rightarrow> List.map_filter (generic_elem url) (take 20 (select doc sel)))" .
next
  show "generic_elem url el = None \<longleftrightarrow> select_one el sel_title = None"
    by (rule generic_elem_None_iff)
next
  assume "select_one el sel_title = Some t"
  then show "map_option position (generic_elem url el) = Some (strip (get_text t))"
    by (simp add: generic_elem_def Let_def)
qed

text \<open>
  An example of the chain. The first pattern \<open>div.job\<close> selects one element, which has no
  title, so it gives no record and the search goes on; the first pattern with a titled
  element is \<open>li.job\<close>, and the result is its one record. The later pattern
  \<open>div[class*="listing"]\<close> also selects a titled element, and adds nothing.
\<close>

theorem generic_jobs_first_pattern_witness:
  "select untitled_then_titled_doc [[Type ''div'', Class ''job'']] = [untitled_elem]
   \<and> select_one untitled_elem sel_title = None
   \<and> generic_elem ''https://example.com/jobs'' untitled_elem = None
   \<and> find (\<lambda>sel. list_ex (\<lambda>el. select_one el sel_title \<noteq> None)
                         (take 20 (select untitled_then_titled_doc sel))) job_selectors
       = Some [[Type ''li'', Class ''job'']]
   \<and> list_ex (\<lambda>el. select_one el sel_title \<noteq> None)
        (take 20 (select untitled_then_titled_doc [[Type ''div'', AttrContains ''class'' ''listing'']]))
   \<and> generic_jobs ''https://example.com/jobs'' untitled_then_titled_doc
     = [\<lparr> company = ''N/A'', position = ''Data Engineer'', skills = ''N/A'', link = [],
          source = ''https://example.com/jobs'' \<rparr>]"
proof -
  note t = generic_jobs_first_pattern
             [of "''https://example.com/jobs''" untitled_then_titled_doc untitled_elem]
  have a: "select untitled_then_titled_doc [[Type ''div'', Class ''job'']] = [untitled_elem]"
    by code_simp
  have b: "select_one untitled_elem sel_title = None" by code_simp
  have c: "find (\<lambda>sel. list_ex (\<lambda>el. select_one el sel_title \<noteq> None)
                         (take 20 (select untitled_then_titled_doc sel))) job_selectors
           = Some [[Type ''li'', Class ''job'']]"
    by code_simp
  have d: "list_ex (\<lambda>el. select_one el sel_title \<noteq> None)
        (take 20 (select untitled_then_titled_doc [[Type ''div'', AttrContains ''class'' ''listing'']]))"
    by code_simp
  have e: "List.map_filter (generic_elem ''https://example.com/jobs'')
             (take 20 (select untitled_then_titled_doc [[Type ''li'', Class ''job'']]))
           = [\<lparr> company = ''N/A'', position = ''Data Engineer'', skills = ''N/A'', link = [],
                source = ''https://example.com/jobs'' \<rparr>]"
    by code_simp
  from conjunct1 [OF t] c e
  have f: "generic_jobs ''https://example.com/jobs'' untitled_then_titled_doc
     = [\<lparr> company = ''N/A'', position = ''Data Engineer'', skills = ''N/A'', link = [],
          source = ''https://example.com/jobs'' \<rparr>]"
    by simp
  from conjunct1 [OF conjunct2 [OF t]] b
  have g: "generic_elem ''https://example.com/jobs'' untitled_elem = None" by simp
  from a b g c d f show ?thesis by simp
qed


section \<open>The caps\<close>

text \<open>
  C3. The site-specific extractor returns at most 30 records, whatever the document holds.
  The generic extractor returns at most 20 records, and its result depends on the document
  only through the first 20 elements that each pattern selects: two documents that agree on
  those give the same result.
\<close>

theorem extraction_caps:
  "length (remoteok_jobs doc) \<le> 30
   \<and> length (generic_jobs url doc) \<le> 20
   \<and> ((\<forall>sel\<in>set job_selectors. take 20 (select doc sel) = take 20 (select doc' sel))
        \<longrightarrow> generic_jobs url doc = generic_jobs url doc')"
  using length_remoteok_jobs length_generic_jobs generic_jobs_cong by blast

theorem extraction_caps_witness:
  "cap_doc \<noteq> cap_doc'
   \<and> list_all (\<lambda>sel. take 20 (select cap_doc sel) = take 20 (select cap_doc' sel)) job_selectors
   \<and> generic_jobs ''https://example.com/jobs'' cap_doc
       = generic_jobs ''https://example.com/jobs'' cap_doc'"
proof -
  have ne: "cap_doc \<noteq> cap_doc'" by code_simp
  have h: "list_all (\<lambda>sel. take 20 (select cap_doc sel) = take 20 (select cap_doc' sel))
             job_selectors"
    by code_simp
  from extraction_caps [of cap_doc "''https://example.com/jobs''" cap_doc'] h ne
  show ?thesis by (simp add: list_all_iff)
qed


section \<open>Featured rows\<close>

text \<open>
  With one featured row in front of 30 ordinary rows the extractor returns 29 records:
  the featured row has used one of the 30 slots, and the last ordinary row is never
  looked at. Dropping featured rows before the cap would give 30.
\<close>

theorem featured_row_takes_slot_counterexample:
  "length (remoteok_jobs featured_doc) = 29 \<and> length (spec_remoteok_jobs featured_doc) = 30"
  by code_simp

text \<open>
  C4, amended. A row whose class list holds the token \<open>featured\<close> emits no record, whatever
  else it contains, and the loop goes on with the next row. The cap comes first: the
  records are those of the non-featured rows among the first 30 \<open>tr.job\<close> rows, so a
  featured row does take one of the 30 slots.
\<close>

theorem featured_rows_skipped:
  "remoteok_jobs doc =
     List.map_filter remoteok_row
       (filter (\<lambda>row. ''featured'' \<notin> set (get_class row)) (take 30 (select doc sel_tr_job)))
   \<and> (''featured'' \<in> set (get_class row) \<longrightarrow> remoteok_row row = None)"
proof -
  have "List.map_filter remoteok_row
          (filter (\<lambda>row. ''featured'' \<notin> set (get_class row)) (take 30 (select doc sel_tr_job)))
        = List.map_filter remoteok_row (take 30 (select doc sel_tr_job))"
    by (rule map_filter_filter) (simp add: remoteok_row_featured)
  then show ?thesis
    by (simp add: remoteok_jobs_def remoteok_loop_append remoteok_row_featured)
qed

theorem featured_rows_skipped_witness:
  "''featured'' \<in> set (get_class featured_row)
   \<and> select_one featured_row sel_h3 \<noteq> None
   \<and> select_one featured_row sel_h2 \<noteq> None
   \<and> remoteok_row featured_row = None"
proof -
  have a: "''featured'' \<in> set (get_class featured_row)" by code_simp
  have b: "select_one featured_row sel_h3 \<noteq> None" by code_simp
  have c: "select_one featured_row sel_h2 \<noteq> None" by code_simp
  from featured_rows_skipped [of featured_doc featured_row] a b c show ?thesis by simp
qed


section \<open>The position field\<close>

text \<open>
  A title element that is empty, or holds only whitespace, is still found, and its row
  gives a record whose position is the empty string, in either extractor.
\<close>

theorem empty_position_counterexample:
  "generic_jobs ''https://example.com/jobs'' blank_title_doc
     = [\<lparr> company = ''N/A'', position = [], skills = ''N/A'', link = [],
          source = ''https://example.com/jobs'' \<rparr>]
   \<and> remoteok_jobs blank_position_doc
     = [\<lparr> company = ''Acme'', position = [], skills = [],
          link = ''https://remoteok.com/jobs/1'', source = ''RemoteOK'' \<rparr>]"
  by code_simp

lemma remoteok_row_position:
  "remoteok_row row = Some r \<Longrightarrow>
     \<exists>t. select_one row sel_h2 = Some t \<and> position r = strip (get_text t)"
  by (auto simp: remoteok_row_def Let_def split: if_splits option.splits)

lemma generic_elem_position:
  "generic_elem url el = Some r \<Longrightarrow>
     \<exists>t. select_one el sel_title = Some t \<and> position r = strip (get_text t)"
  by (auto simp: generic_elem_def Let_def split: option.splits)

text \<open>
  The text of a heading that holds a comment and a script: the comment and the string of
  the script are not part of it.
\<close>

lemma get_text_commented_heading: "strip (get_text commented_heading) = ''Backend Engineer''"
  by code_simp

text \<open>
  C5, amended. In both extractors every emitted record is the record of one of the rows or
  elements that were looked at, and its position is the stripped text of the title element
  found in that same row or element (the first \<open>h2\<close> for the site-specific extractor, the
  first match of the title selector for the generic one); that text may be empty. A row or
  element in which no title element is found emits no record.
\<close>

theorem position_from_title_element:
  "(\<forall>r\<in>set (remoteok_jobs doc).
      \<exists>row\<in>set (take 30 (select doc sel_tr_job)).
        remoteok_row row = Some r
        \<and> (\<exists>t. select_one row sel_h2 = Some t \<and> position r = strip (get_text t)))
   \<and> (\<forall>r\<in>set (generic_jobs url doc).
        \<exists>sel\<in>set job_selectors. \<exists>el\<in>set (take 20 (select doc sel)).
          generic_elem url el = Some r
          \<and> (\<exists>t. select_one el sel_title = Some t \<and> position r = strip (get_text t)))
   \<and> (select_one row sel_h2 = None \<longrightarrow> remoteok_row row = None)
   \<and> (select_one el sel_title = None \<longrightarrow> generic_elem url el = None)"
proof (intro conjI ballI impI)
  fix r assume "r \<in> set (remoteok_jobs doc)"
  then obtain row where m: "row \<in> set (take 30 (select doc sel_tr_job))"
      and g: "remoteok_row row = Some r"
    using in_remoteok_jobs by blast
  show "\<exists>row\<in>set (take 30 (select doc sel_tr_job)).
        remoteok_row row = Some r
        \<and> (\<exists>t. select_one row sel_h2 = Some t \<and> position r = strip (get_text t))"
    by (rule bexI [OF _ m]) (simp add: g remoteok_row_position [OF g])
next
  fix r assume "r \<in> set (generic_jobs url doc)"
  then obtain sel el where m: "sel \<in> set job_selectors" "el \<in> set (take 20 (select doc sel))"
      and g: "generic_elem url el = Some r"
    using in_generic_jobs by blast
  show "\<exists>sel\<in>set job_selectors. \<exists>el\<in>set (take 20 (select doc sel)).
          generic_elem url el = Some r
          \<and> (\<exists>t. select_one el sel_title = Some t \<and> position r = strip (get_text t))"
    by (rule bexI [OF _ m(1)], rule bexI [OF _ m(2)])
       (simp add: g generic_elem_position [OF g])
next
  assume "select_one row sel_h2 = None"
  then show "remoteok_row row = None"
    by (simp add: remoteok_row_def Let_def split: option.splits)
next
  assume "select_one el sel_title = None"
  then show "generic_elem url el = None"
    by (simp add: generic_elem_def Let_def)
qed

theorem position_from_title_element_witness:
  "\<lparr> company = ''N/A'', position = ''Data Engineer'', skills = ''N/A'', link = [],
      source = ''https://example.com/jobs'' \<rparr>
     \<in> set (generic_jobs ''https://example.com/jobs'' fallback_doc)
   \<and> (\<exists>sel\<in>set job_selectors. \<exists>el\<in>set (take 20 (select fallback_doc sel)).
         generic_elem ''https://example.com/jobs'' el
           = Some \<lparr> company = ''N/A'', position = ''Data Engineer'', skills = ''N/A'',
                    link = [], source = ''https://example.com/jobs'' \<rparr>
         \<and> (\<exists>t. select_one el sel_title = Some t
               \<and> position \<lparr> company = ''N/A'', position = ''Data Engineer'', skills = ''N/A'',
                            link = [], source = ''https://example.com/jobs'' \<rparr>
                  = strip (get_text t)))
   \<and> \<lparr> company = ''Acme'', position = [], skills = [],
        link = ''https://remoteok.com/jobs/1'', source = ''RemoteOK'' \<rparr>
     \<in> set (remoteok_jobs blank_position_doc)
   \<and> (\<exists>row\<in>set (take 30 (select blank_position_doc sel_tr_job)).
         remoteok_row row
           = Some \<lparr> company = ''Acme'', position = [], skills = [],
                    link = ''https://remoteok.com/jobs/1'', source = ''RemoteOK'' \<rparr>
         \<and> (\<exists>t. select_one row sel_h2 = Some t
               \<and> position \<lparr> company = ''Acme'', position = [], skills = [],
                            link = ''https://remoteok.com/jobs/1'', source = ''RemoteOK'' \<rparr>
                  = strip (get_text t)))
   \<and> select_one untitled_elem sel_title = None
   \<and> generic_elem ''https://example.com/jobs'' untitled_elem = None"
proof -
  note t = position_from_title_element
             [of fallback_doc "''https://example.com/jobs''" classless_row untitled_elem]
  note u = position_from_title_element
             [of blank_position_doc "''https://example.com/jobs''" classless_row untitled_elem]
  have m: "\<lparr> company = ''N/A'', position = ''Data Engineer'', skills = ''N/A'', link = [],
             source = ''https://example.com/jobs'' \<rparr>
           \<in> set (generic_jobs ''https://example.com/jobs'' fallback_doc)"
    by code_simp
  have k: "\<lparr> company = ''Acme'', position = [], skills = [],
             link = ''https://remoteok.com/jobs/1'', source = ''RemoteOK'' \<rparr>
           \<in> set (remoteok_jobs blank_position_doc)"
    by code_simp
  have n: "select_one untitled_elem sel_title = None" by code_simp
  note a = bspec [OF conjunct1 [OF conjunct2 [OF t]] m]
  note c = bspec [OF conjunct1 [OF u] k]
  from t n have b: "generic_elem ''https://example.com/jobs'' untitled_elem = None" by simp
  from m a k c n b show ?thesis by simp
qed


section \<open>The title selector\<close>







section \<open>Link normalisation of the site-specific extractor\<close>

text \<open>
  The test is on the four characters \<open>http\<close>, not on a scheme: a link with the scheme
  \<open>ftp\<close> gets the prefix, and a relative link that begins with \<open>http\<close> does not.
\<close>

theorem link_scheme_counterexample:
  "has_scheme ''ftp://files.example.com/jobs/1''
   \<and> map_option link (remoteok_row (job_row [''job''] ''Acme'' ''Engineer'' ''ftp://files.example.com/jobs/1''))
       = Some ''https://remoteok.comftp://files.example.com/jobs/1''
   \<and> \<not> has_scheme ''http-api-engineer-42''
   \<and> map_option link (remoteok_row (job_row [''job''] ''Acme'' ''Engineer'' ''http-api-engineer-42''))
       = Some ''http-api-engineer-42''"
  by code_simp

lemma remoteok_row_link:
  "remoteok_row row = Some r \<Longrightarrow>
     link r = (if get_attr row ''data-url'' \<noteq> [] \<and> \<not> prefix ''http'' (get_attr row ''data-url'')
               then ''https://remoteok.com'' @ get_attr row ''data-url''
               else get_attr row ''data-url'')"
  by (auto simp: remoteok_row_def Let_def startswith_def split: if_splits option.splits)

text \<open>
  C7, amended. Every record the site-specific extractor emits comes from one of the first
  30 rows, and its link is fixed by the row's \<open>data-url\<close> attribute: a non-empty value
  that does not start with the string \<open>http\<close> is prefixed with \<open>https://remoteok.com\<close>;
  a value that starts with \<open>http\<close>, which covers every \<open>http://\<close> and \<open>https://\<close> URL,
  is left unchanged; an absent or empty value gives the empty link.
\<close>

theorem link_normalization:
  "(r \<in> set (remoteok_jobs doc) \<longrightarrow>
      (\<exists>row\<in>set (take 30 (select doc sel_tr_job)). remoteok_row row = Some r))
   \<and> (remoteok_row row = Some r \<longrightarrow>
        (get_attr row ''data-url'' = [] \<longrightarrow> link r = [])
      \<and> (prefix ''http'' (get_attr row ''data-url'') \<longrightarrow> link r = get_attr row ''data-url'')
      \<and> (get_attr row ''data-url'' \<noteq> [] \<and> \<not> prefix ''http'' (get_attr row ''data-url'')
           \<longrightarrow> link r = ''https://remoteok.com'' @ get_attr row ''data-url''))"
  using in_remoteok_jobs [of r doc] remoteok_row_link [of row r] by auto

theorem link_normalization_witness:
  "remoteok_row (job_row [''job''] ''Acme'' ''Engineer'' ''/jobs/42'')
     = Some \<lparr> company = ''Acme'', position = ''Engineer'', skills = [],
              link = ''https://remoteok.com/jobs/42'', source = ''RemoteOK'' \<rparr>
   \<and> get_attr (job_row [''job''] ''Acme'' ''Engineer'' ''/jobs/42'') ''data-url'' = ''/jobs/42''
   \<and> link \<lparr> company = ''Acme'', position = ''Engineer'', skills = [],
              link = ''https://remoteok.com/jobs/42'', source = ''RemoteOK'' \<rparr>
       = ''https://remoteok.com'' @ get_attr (job_row [''job''] ''Acme'' ''Engineer'' ''/jobs/42'') ''data-url''"
proof -
  have a: "remoteok_row (job_row [''job''] ''Acme'' ''Engineer'' ''/jobs/42'')
     = Some \<lparr> company = ''Acme'', position = ''Engineer'', skills = [],
              link = ''https://remoteok.com/jobs/42'', source = ''RemoteOK'' \<rparr>"
    by code_simp
  have b: "get_attr (job_row [''job''] ''Acme'' ''Engineer'' ''/jobs/42'') ''data-url'' = ''/jobs/42''"
    by code_simp
  have c: "\<not> prefix ''http'' ''/jobs/42''" by simp
  from link_normalization [of "\<lparr> company = ''Acme'', position = ''Engineer'', skills = [],
              link = ''https://remoteok.com/jobs/42'', source = ''RemoteOK'' \<rparr>" cap_doc
              "job_row [''job''] ''Acme'' ''Engineer'' ''/jobs/42''"] a b c
  show ?thesis by simp
qed


section \<open>Defaults of the generic extractor\<close>

lemma generic_elem_defaults:
  "generic_elem url el = Some r \<Longrightarrow>
     skills r = ''N/A'' \<and> source r = url
     \<and> (select_one el sel_company = None \<longrightarrow> company r = ''N/A'')
     \<and> (select_one el sel_a_href = None \<longrightarrow> link r = [])"
  by (auto simp: generic_elem_def Let_def split: option.splits)

text \<open>
  C8. Every record the generic extractor emits has skills \<open>N/A\<close> and the requested URL as
  its source, and comes from a selected element: when that element has no company
  sub-element the company is \<open>N/A\<close>, and when it has no anchor with an \<open>href\<close> the link is
  the empty string.
\<close>

theorem generic_record_defaults:
  "\<forall>r\<in>set (generic_jobs url doc).
      skills r = ''N/A'' \<and> source r = url
      \<and> (\<exists>sel\<in>set job_selectors. \<exists>el\<in>set (take 20 (select doc sel)).
            generic_elem url el = Some r
            \<and> (select_one el sel_company = None \<longrightarrow> company r = ''N/A'')
            \<and> (select_one el sel_a_href = None \<longrightarrow> link r = []))"
proof
  fix r assume "r \<in> set (generic_jobs url doc)"
  then obtain sel el where m: "sel \<in> set job_selectors" "el \<in> set (take 20 (select doc sel))"
      and g: "generic_elem url el = Some r"
    using in_generic_jobs by blast
  note d = generic_elem_defaults [OF g]
  have "\<exists>sel\<in>set job_selectors. \<exists>el\<in>set (take 20 (select doc sel)).
            generic_elem url el = Some r
            \<and> (select_one el sel_company = None \<longrightarrow> company r = ''N/A'')
            \<and> (select_one el sel_a_href = None \<longrightarrow> link r = [])"
    by (rule bexI [OF _ m(1)], rule bexI [OF _ m(2)]) (simp add: d g)
  then show "skills r = ''N/A'' \<and> source r = url
      \<and> (\<exists>sel\<in>set job_selectors. \<exists>el\<in>set (take 20 (select doc sel)).
            generic_elem url el = Some r
            \<and> (select_one el sel_company = None \<longrightarrow> company r = ''N/A'')
            \<and> (select_one el sel_a_href = None \<longrightarrow> link r = []))"
    using d by simp
qed

theorem generic_record_defaults_witness:
  "generic_jobs ''https://example.com/jobs'' fallback_doc
     = [\<lparr> company = ''Acme'', position = ''Backend Engineer'', skills = ''N/A'',
           link = ''/jobs/1'', source = ''https://example.com/jobs'' \<rparr>,
        \<lparr> company = ''N/A'', position = ''Data Engineer'', skills = ''N/A'',
           link = [], source = ''https://example.com/jobs'' \<rparr>]
   \<and> list_all (\<lambda>r. skills r = ''N/A'' \<and> source r = ''https://example.com/jobs'')
        (generic_jobs ''https://example.com/jobs'' fallback_doc)"
proof -
  have a: "generic_jobs ''https://example.com/jobs'' fallback_doc
     = [\<lparr> company = ''Acme'', position = ''Backend Engineer'', skills = ''N/A'',
           link = ''/jobs/1'', source = ''https://example.com/jobs'' \<rparr>,
        \<lparr> company = ''N/A'', position = ''Data Engineer'', skills = ''N/A'',
           link = [], source = ''https://example.com/jobs'' \<rparr>]"
    by code_simp
  from generic_record_defaults [of "''https://example.com/jobs''" fallback_doc]
  have "list_all (\<lambda>r. skills r = ''N/A'' \<and> source r = ''https://example.com/jobs'')
        (generic_jobs ''https://example.com/jobs'' fallback_doc)"
    unfolding list_all_iff by blast
  with a show ?thesis by blast
qed


section \<open>The URL argument of main\<close>

text \<open>
  The test is on the two prefixes \<open>http://\<close> and \<open>https://\<close>: an argument with another
  scheme is not passed through unchanged.
\<close>

theorem main_url_scheme_counterexample:
  "has_scheme ''ftp://example.com/jobs''
   \<and> main_url ''ftp://example.com/jobs'' = ''https://ftp://example.com/jobs''"
  by code_simp

text \<open>
  C9, amended. An argument that starts with neither \<open>http://\<close> nor \<open>https://\<close> gets
  \<open>https://\<close> prepended; an argument that starts with one of the two is passed through
  unchanged; the result is the URL that is scraped.
\<close>

theorem main_url_prefix:
  "(\<not> prefix ''http://'' arg \<and> \<not> prefix ''https://'' arg \<longrightarrow> main_url arg = ''https://'' @ arg)
   \<and> (prefix ''http://'' arg \<or> prefix ''https://'' arg \<longrightarrow> main_url arg = arg)
   \<and> main_scrape get arg = scrape_data get (main_url arg)"
  by (simp add: main_url_def main_scrape_def startswith_def)

theorem main_url_prefix_witness:
  "\<not> prefix ''http://'' ''remoteok.com/remote-python-jobs''
   \<and> \<not> prefix ''https://'' ''remoteok.com/remote-python-jobs''
   \<and> main_url ''remoteok.com/remote-python-jobs'' = ''https://remoteok.com/remote-python-jobs''
   \<and> prefix ''http://'' ''http://example.com/jobs''
   \<and> main_url ''http://example.com/jobs'' = ''http://example.com/jobs''"
proof -
  have a: "\<not> prefix ''http://'' ''remoteok.com/remote-python-jobs''
           \<and> \<not> prefix ''https://'' ''remoteok.com/remote-python-jobs''" by simp
  have b: "prefix ''http://'' ''http://example.com/jobs''" by simp
  from main_url_prefix [of "''remoteok.com/remote-python-jobs''"]
       main_url_prefix [of "''http://example.com/jobs''"] a b
  show ?thesis by simp
qed


section \<open>The featured test is on whole class tokens\<close>

lemma select_one_NavigableString: "select_one (NavigableString s) sel = None"
  by (simp add: select_one_def)

lemma select_one_TypedString: "select_one (TypedString k s) sel = None"
  by (simp add: select_one_def)

text \<open>
  C10. For a row in which a company and a position element are found, the featured skip
  happens exactly when the row has a class attribute whose token list holds the token
  \<open>featured\<close> itself. A longer token such as \<open>featured-top\<close> does not trigger it, and a
  row without a class attribute is never skipped as featured.
\<close>

theorem featured_exact_token:
  "select_one row sel_h3 \<noteq> None \<Longrightarrow> select_one row sel_h2 \<noteq> None \<Longrightarrow>
     (remoteok_row row = None) =
     (\<exists>n cs ats ks. row = Tag n (Some cs) ats ks \<and> ''featured'' \<in> set cs)"
proof (cases row)
  case (Tag n cls ats ks)
  assume "select_one row sel_h3 \<noteq> None" "select_one row sel_h2 \<noteq> None"
  then show ?thesis using Tag
    by (cases cls) (auto simp: remoteok_row_def Let_def)
next
  case (NavigableString s)
  assume "select_one row sel_h3 \<noteq> None"
  then show ?thesis using NavigableString by (simp add: select_one_NavigableString)
next
  case (TypedString k s)
  assume "select_one row sel_h3 \<noteq> None"
  then show ?thesis using TypedString by (simp add: select_one_TypedString)
qed

theorem featured_exact_token_witness:
  "select_one featured_top_row sel_h3 \<noteq> None
   \<and> select_one featured_top_row sel_h2 \<noteq> None
   \<and> remoteok_row featured_top_row \<noteq> None
   \<and> select_one classless_row sel_h3 \<noteq> None
   \<and> select_one classless_row sel_h2 \<noteq> None
   \<and> remoteok_row classless_row \<noteq> None
   \<and> remoteok_row featured_row = None"
proof -
  have a: "select_one featured_top_row sel_h3 \<noteq> None" "select_one featured_top_row sel_h2 \<noteq> None"
    by code_simp+
  have b: "select_one classless_row sel_h3 \<noteq> None" "select_one classless_row sel_h2 \<noteq> None"
    by code_simp+
  have c: "select_one featured_row sel_h3 \<noteq> None" "select_one featured_row sel_h2 \<noteq> None"
    by code_simp+
  from featured_exact_token [OF a] featured_exact_token [OF b] featured_exact_token [OF c] a b
  show ?thesis
    by (simp add: featured_top_row_def classless_row_def featured_row_def job_row_def)
qed

end
